theory Spec2Isabelle
  imports Main
begin

section \<open>Python values\<close>

text \<open>
  The values the server handles: the claim values of a token, the values kept in the
  request-scoped state and the dictionaries handed to \<^verbatim>\<open>JSONResponse\<close>. A dictionary
  literal keeps the order of its keys, so \<open>PyDict\<close> is an association list.
\<close>

datatype pyval =
    PyNone
  | PyBool bool
  | PyInt int
  | PyStr string
  | PyList "pyval list"
  | PyDict (items: "(string \<times> pyval) list")

text \<open>\<^verbatim>\<open>d.get(k)\<close> on a dictionary: the value of the key, \<^verbatim>\<open>None\<close> when it is missing.\<close>

definition dict_get :: "(string \<rightharpoonup> pyval) \<Rightarrow> string \<Rightarrow> pyval" where
  "dict_get d k = (case d k of None \<Rightarrow> PyNone | Some v \<Rightarrow> v)"

section \<open>The access token and the request-scoped context\<close>

text \<open>
  What \<^verbatim>\<open>get_access_token()\<close> returns is a parameter of the model, of type
  \<open>access_token option\<close>: \<open>None\<close> when the request carries no token. The only attribute
  the middleware reads is \<^verbatim>\<open>claims\<close>; \<open>claims t = None\<close> is a token object without that
  attribute (\<^verbatim>\<open>hasattr(token, "claims")\<close> is false), \<open>Some c\<close> a token whose claims
  dictionary is \<open>c\<close>.
\<close>

record access_token =
  claims :: "(string \<rightharpoonup> pyval) option"

text \<open>
  Modelled from the spec: the request context (\<^verbatim>\<open>context.fastmcp_context\<close>, an object of
  the FastMCP library, whose code is not part of this repository) is "a mutable, request-scoped key\<rightarrow>value
  store". \<open>state\<close> is the store; \<open>writes\<close> is the history of the \<^verbatim>\<open>set_state\<close> calls
  made on this context, oldest first, kept so that writes can be counted.
\<close>

record request_context =
  state :: "string \<rightharpoonup> pyval"
  writes :: "(string \<times> pyval) list"

text \<open>
  Modelled from the spec: \<^verbatim>\<open>set_state(key, value)\<close> stores the value under the key in the
  request context (and the call is recorded in the history).
\<close>

definition set_state :: "request_context \<Rightarrow> string \<Rightarrow> pyval \<Rightarrow> request_context" where
  "set_state fc key v = fc\<lparr>state := (state fc)(key \<mapsto> v), writes := writes fc @ [(key, v)]\<rparr>"

text \<open>
  \<^verbatim>\<open>MiddlewareContext\<close>: the intercepted message and the request context, which is
  \<^verbatim>\<open>None\<close> when the hook runs outside a request.
\<close>

record 'm middleware_context =
  message :: 'm
  fastmcp_context :: "request_context option"

section \<open>UserAuthMiddleware\<close>

text \<open>
  \<^verbatim>\<open>
  def _get_user_id(self):
      token = get_access_token()
      if not (token and hasattr(token, "claims")):
          return None
      return token.claims.get("sub")
  \<close>
\<close>

definition get_user_id :: "access_token option \<Rightarrow> pyval" where
  "get_user_id token =
     (case token of
        None \<Rightarrow> PyNone
      | Some t \<Rightarrow>
          (case claims t of
             None \<Rightarrow> PyNone
           | Some c \<Rightarrow> dict_get c ''sub''))"

text \<open>
  \<^verbatim>\<open>
  async def on_call_tool(self, context, call_next):
      user_id = self._get_user_id()
      if context.fastmcp_context is not None:
          await context.fastmcp_context.set_state("user_id", user_id)
      return await call_next(context)
  \<close>
  The hook mutates the object \<^verbatim>\<open>context.fastmcp_context\<close> refers to and then hands the
  same \<^verbatim>\<open>context\<close> to \<^verbatim>\<open>call_next\<close>; in the model the updated context is passed on.
  \<^verbatim>\<open>call_next\<close> is the rest of the pipeline: whatever it produces (a result or an
  exception, of any type \<open>'o\<close>) is what the hook produces.
\<close>

definition on_call_tool ::
  "access_token option \<Rightarrow> 'm middleware_context \<Rightarrow> ('m middleware_context \<Rightarrow> 'o) \<Rightarrow> 'o" where
  "on_call_tool token context call_next =
     (let user_id = get_user_id token;
          context' = (case fastmcp_context context of
                        None \<Rightarrow> context
                      | Some fc \<Rightarrow>
                          context\<lparr>fastmcp_context := Some (set_state fc ''user_id'' user_id)\<rparr>)
      in call_next context')"

definition on_read_resource ::
  "access_token option \<Rightarrow> 'm middleware_context \<Rightarrow> ('m middleware_context \<Rightarrow> 'o) \<Rightarrow> 'o" where
  "on_read_resource token context call_next =
     (let user_id = get_user_id token;
          context' = (case fastmcp_context context of
                        None \<Rightarrow> context
                      | Some fc \<Rightarrow>
                          context\<lparr>fastmcp_context := Some (set_state fc ''user_id'' user_id)\<rparr>)
      in call_next context')"

text \<open>An exception raised by a later stage of the pipeline, as a value.\<close>

datatype exn = Raised string

text \<open>The \<^verbatim>\<open>set_state\<close> calls recorded on a call's request context; none when it has no context.\<close>

definition writes_of :: "'m middleware_context \<Rightarrow> (string \<times> pyval) list" where
  "writes_of context = (case fastmcp_context context of None \<Rightarrow> [] | Some fc \<Rightarrow> writes fc)"

section \<open>The HTTP routes\<close>

text \<open>The request a route handler receives; both handlers ignore it.\<close>

record request =
  req_method :: string
  req_path :: string
  req_headers :: "(string \<times> string) list"

record json_response =
  status_code :: nat
  content :: pyval

text \<open>
  Modelled from the spec: \<^verbatim>\<open>JSONResponse(content)\<close> (Starlette, whose code is not part of this repository) with no
  status given is an HTTP 200 response carrying the content.
\<close>

definition JSONResponse :: "pyval \<Rightarrow> json_response" where
  "JSONResponse c = \<lparr>status_code = 200, content = c\<rparr>"

text \<open>
  \<^verbatim>\<open>
  @mcp.custom_route("/health", methods=["GET"])
  async def health_check(_request):
      return JSONResponse({"status": "healthy", "service": "mcp-server"})
  \<close>
\<close>

definition health_check :: "request \<Rightarrow> json_response" where
  "health_check request =
     JSONResponse (PyDict [(''status'', PyStr ''healthy''), (''service'', PyStr ''mcp-server'')])"

text \<open>
  \<^verbatim>\<open>openid_configuration(_request)\<close> reads the module constant \<^verbatim>\<open>KEYCLOAK_REALM_URL\<close>, set
  once from the environment when the module is loaded; it is the first parameter here.
  An f-string \<^verbatim>\<open>f"{KEYCLOAK_REALM_URL}/x"\<close> is the realm URL followed by \<^verbatim>\<open>/x\<close>.
\<close>

definition openid_configuration :: "string \<Rightarrow> request \<Rightarrow> json_response" where
  "openid_configuration KEYCLOAK_REALM_URL request =
     JSONResponse (PyDict
       [(''issuer'', PyStr KEYCLOAK_REALM_URL),
        (''authorization_endpoint'', PyStr (KEYCLOAK_REALM_URL @ ''/protocol/openid-connect/auth'')),
        (''token_endpoint'', PyStr (KEYCLOAK_REALM_URL @ ''/protocol/openid-connect/token'')),
        (''userinfo_endpoint'', PyStr (KEYCLOAK_REALM_URL @ ''/protocol/openid-connect/userinfo'')),
        (''jwks_uri'', PyStr (KEYCLOAK_REALM_URL @ ''/protocol/openid-connect/certs'')),
        (''registration_endpoint'', PyStr (KEYCLOAK_REALM_URL @ ''/clients-registrations/openid-connect'')),
        (''scopes_supported'',
           PyList [PyStr ''openid'', PyStr ''profile'', PyStr ''email'', PyStr ''mcp:access'']),
        (''response_types_supported'', PyList [PyStr ''code'']),
        (''grant_types_supported'', PyList [PyStr ''authorization_code'', PyStr ''refresh_token'']),
        (''token_endpoint_auth_methods_supported'',
           PyList [PyStr ''client_secret_basic'', PyStr ''client_secret_post'']),
        (''code_challenge_methods_supported'', PyList [PyStr ''S256''])])"

section \<open>Identity resolution\<close>

lemma get_user_id_no_token: "get_user_id None = PyNone"
  by (simp add: get_user_id_def)

lemma get_user_id_no_claims: "claims t = None \<Longrightarrow> get_user_id (Some t) = PyNone"
  by (simp add: get_user_id_def)

lemma get_user_id_no_sub:
  "claims t = Some c \<Longrightarrow> c ''sub'' = None \<Longrightarrow> get_user_id (Some t) = PyNone"
  by (simp add: get_user_id_def dict_get_def)

lemma get_user_id_sub:
  "claims t = Some c \<Longrightarrow> c ''sub'' = Some v \<Longrightarrow> get_user_id (Some t) = v"
  by (simp add: get_user_id_def dict_get_def)

lemma on_call_tool_Some:
  "fastmcp_context context = Some fc \<Longrightarrow>
   on_call_tool token context call_next =
     call_next (context\<lparr>fastmcp_context := Some (set_state fc ''user_id'' (get_user_id token))\<rparr>)"
  by (simp add: on_call_tool_def)

lemma on_call_tool_None:
  "fastmcp_context context = None \<Longrightarrow> on_call_tool token context call_next = call_next context"
  by (simp add: on_call_tool_def)

lemma on_read_resource_Some:
  "fastmcp_context context = Some fc \<Longrightarrow>
   on_read_resource token context call_next =
     call_next (context\<lparr>fastmcp_context := Some (set_state fc ''user_id'' (get_user_id token))\<rparr>)"
  by (simp add: on_read_resource_def)

lemma on_read_resource_None:
  "fastmcp_context context = None \<Longrightarrow> on_read_resource token context call_next = call_next context"
  by (simp add: on_read_resource_def)

lemma fastmcp_context_same:
  "fastmcp_context context = x \<Longrightarrow> context\<lparr>fastmcp_context := x\<rparr> = context"
  by (cases "context") simp

lemma state_set_state: "state (set_state fc key v) key = Some v"
  by (simp add: set_state_def)

text \<open>
  C1. When the request carries a token whose claims dictionary maps \<^verbatim>\<open>sub\<close> to a value
  \<open>v\<close>, and the call has a request context \<open>fc\<close>, both hooks hand the next stage a context
  whose request context is \<open>fc\<close> after \<^verbatim>\<open>set_state("user_id", v)\<close>; in that context the
  key \<^verbatim>\<open>user_id\<close> holds \<open>v\<close>. The write therefore happens before the handler, which is
  part of \<open>call_next\<close>, runs.
\<close>

theorem sub_claim_published:
  assumes "token = Some t" and "claims t = Some c" and "c ''sub'' = Some v"
    and "fastmcp_context context = Some fc"
  shows "on_call_tool token context call_next =
           call_next (context\<lparr>fastmcp_context := Some (set_state fc ''user_id'' v)\<rparr>)
       \<and> on_read_resource token context call_next =
           call_next (context\<lparr>fastmcp_context := Some (set_state fc ''user_id'' v)\<rparr>)
       \<and> state (set_state fc ''user_id'' v) ''user_id'' = Some v"
  using assms
  by (simp add: on_call_tool_Some on_read_resource_Some get_user_id_sub state_set_state)

theorem sub_claim_published_witness:
  "on_call_tool (Some \<lparr>claims = Some [''sub'' \<mapsto> PyStr ''u1'']\<rparr>)
     \<lparr>message = ''add_numbers'', fastmcp_context = Some \<lparr>state = Map.empty, writes = []\<rparr>\<rparr>
     (\<lambda>c. c)
   = \<lparr>message = ''add_numbers'',
      fastmcp_context = Some \<lparr>state = [''user_id'' \<mapsto> PyStr ''u1''],
                               writes = [(''user_id'', PyStr ''u1'')]\<rparr>\<rparr>"
proof -
  have h1: "claims \<lparr>claims = Some [''sub'' \<mapsto> PyStr ''u1'']\<rparr> = Some [''sub'' \<mapsto> PyStr ''u1'']"
    by simp
  have h2: "[''sub'' \<mapsto> PyStr ''u1''] ''sub'' = Some (PyStr ''u1'')"
    by simp
  have h3: "fastmcp_context \<lparr>message = ''add_numbers'',
              fastmcp_context = Some \<lparr>state = Map.empty, writes = []\<rparr>\<rparr>
            = Some \<lparr>state = Map.empty, writes = []\<rparr>"
    by simp
  show ?thesis
    using sub_claim_published [OF refl h1 h2 h3, of "\<lambda>c. c"]
    by (simp add: set_state_def)
qed

text \<open>
  C2. When the request carries no token, or a token without a claims structure, or a token
  whose claims have no \<^verbatim>\<open>sub\<close>, the resolved identity is \<^verbatim>\<open>None\<close>. With a request context
  \<open>fc\<close>, both hooks store \<^verbatim>\<open>None\<close> under \<^verbatim>\<open>user_id\<close> and pass the call on; without one
  they pass the call on as it is. In every case the outcome of the hook is the outcome of
  the next stage: the middleware raises nothing of its own and aborts nothing.
\<close>

theorem no_identity_stores_none:
  assumes "token = None
         \<or> (\<exists>t. token = Some t \<and> claims t = None)
         \<or> (\<exists>t c. token = Some t \<and> claims t = Some c \<and> c ''sub'' = None)"
    and "fastmcp_context context = Some fc"
  shows "get_user_id token = PyNone
       \<and> on_call_tool token context call_next =
           call_next (context\<lparr>fastmcp_context := Some (set_state fc ''user_id'' PyNone)\<rparr>)
       \<and> on_read_resource token context call_next =
           call_next (context\<lparr>fastmcp_context := Some (set_state fc ''user_id'' PyNone)\<rparr>)
       \<and> state (set_state fc ''user_id'' PyNone) ''user_id'' = Some PyNone
       \<and> on_call_tool token (context\<lparr>fastmcp_context := None\<rparr>) call_next =
           call_next (context\<lparr>fastmcp_context := None\<rparr>)
       \<and> on_read_resource token (context\<lparr>fastmcp_context := None\<rparr>) call_next =
           call_next (context\<lparr>fastmcp_context := None\<rparr>)"
proof -
  from assms(1) have uid: "get_user_id token = PyNone"
    by (auto simp: get_user_id_no_token get_user_id_no_claims get_user_id_no_sub)
  from assms(2) have "on_call_tool token context call_next =
      call_next (context\<lparr>fastmcp_context := Some (set_state fc ''user_id'' PyNone)\<rparr>)"
    by (simp add: on_call_tool_Some uid)
  moreover from assms(2) have "on_read_resource token context call_next =
      call_next (context\<lparr>fastmcp_context := Some (set_state fc ''user_id'' PyNone)\<rparr>)"
    by (simp add: on_read_resource_Some uid)
  ultimately show ?thesis
    using uid by (simp add: state_set_state on_call_tool_None on_read_resource_None)
qed

theorem no_identity_stores_none_witness:
  "on_call_tool (Some \<lparr>claims = Some [''aud'' \<mapsto> PyStr ''mcp-server'']\<rparr>)
     \<lparr>message = ''add_numbers'', fastmcp_context = Some \<lparr>state = Map.empty, writes = []\<rparr>\<rparr>
     (Inr :: string middleware_context \<Rightarrow> exn + string middleware_context)
   = Inr \<lparr>message = ''add_numbers'',
          fastmcp_context = Some \<lparr>state = [''user_id'' \<mapsto> PyNone],
                                   writes = [(''user_id'', PyNone)]\<rparr>\<rparr>"
proof -
  have h1: "Some \<lparr>claims = Some [''aud'' \<mapsto> PyStr ''mcp-server'']\<rparr> = None
          \<or> (\<exists>t. Some \<lparr>claims = Some [''aud'' \<mapsto> PyStr ''mcp-server'']\<rparr> = Some t \<and> claims t = None)
          \<or> (\<exists>t c. Some \<lparr>claims = Some [''aud'' \<mapsto> PyStr ''mcp-server'']\<rparr> = Some t
                  \<and> claims t = Some c \<and> c ''sub'' = None)"
    by simp
  have h2: "fastmcp_context \<lparr>message = ''add_numbers'',
              fastmcp_context = Some \<lparr>state = Map.empty, writes = []\<rparr>\<rparr>
            = Some \<lparr>state = Map.empty, writes = []\<rparr>"
    by simp
  show ?thesis
    using no_identity_stores_none [OF h1 h2,
        of "Inr :: string middleware_context \<Rightarrow> exn + string middleware_context"]
    by (simp add: set_state_def)
qed

text \<open>
  C3, as stated, fails: a hook called with a context that has no request context
  (\<^verbatim>\<open>fastmcp_context is None\<close>) skips the write, so that call performs no write at all.
\<close>

theorem one_write_counterexample:
  "writes_of (on_call_tool (Some \<lparr>claims = Some [''sub'' \<mapsto> PyStr ''u1'']\<rparr>)
                \<lparr>message = ''add_numbers'', fastmcp_context = None\<rparr> id)
     = writes_of \<lparr>message = ''add_numbers'', fastmcp_context = None\<rparr>
   \<and> length (writes_of (on_call_tool (Some \<lparr>claims = Some [''sub'' \<mapsto> PyStr ''u1'']\<rparr>)
                \<lparr>message = ''add_numbers'', fastmcp_context = None\<rparr> id))
     \<noteq> length (writes_of \<lparr>message = ''add_numbers'', fastmcp_context = None\<rparr>) + 1"
  by (simp add: on_call_tool_def writes_of_def)

text \<open>
  C3, amended. For a call that has a request context \<open>fc\<close>, each hook hands the next stage
  the intercepted context with exactly one change: \<open>fc\<close> has \<^verbatim>\<open>user_id\<close> set to the resolved
  identity, and its history of writes is longer by that single write. The message and every
  other key of the state are as they were. For a call without a request context the hook
  writes nothing and the context is passed on as it is.
\<close>

theorem one_write_when_context:
  assumes "fastmcp_context context = Some fc"
  shows "on_call_tool token context call_next =
           call_next (context\<lparr>fastmcp_context :=
             Some (fc\<lparr>state := (state fc)(''user_id'' \<mapsto> get_user_id token),
                      writes := writes fc @ [(''user_id'', get_user_id token)]\<rparr>)\<rparr>)
       \<and> on_read_resource token context call_next =
           call_next (context\<lparr>fastmcp_context :=
             Some (fc\<lparr>state := (state fc)(''user_id'' \<mapsto> get_user_id token),
                      writes := writes fc @ [(''user_id'', get_user_id token)]\<rparr>)\<rparr>)
       \<and> writes_of (on_call_tool token context id) =
           writes_of context @ [(''user_id'', get_user_id token)]
       \<and> writes_of (on_read_resource token context id) =
           writes_of context @ [(''user_id'', get_user_id token)]
       \<and> on_call_tool token (context\<lparr>fastmcp_context := None\<rparr>) call_next =
           call_next (context\<lparr>fastmcp_context := None\<rparr>)
       \<and> on_read_resource token (context\<lparr>fastmcp_context := None\<rparr>) call_next =
           call_next (context\<lparr>fastmcp_context := None\<rparr>)"
  using assms
  by (simp add: on_call_tool_Some on_read_resource_Some on_call_tool_None on_read_resource_None
      set_state_def writes_of_def)

theorem one_write_when_context_witness:
  "writes_of (on_call_tool (Some \<lparr>claims = Some [''sub'' \<mapsto> PyStr ''u1'']\<rparr>)
      \<lparr>message = ''add_numbers'',
       fastmcp_context = Some \<lparr>state = [''trace'' \<mapsto> PyInt 7], writes = [(''trace'', PyInt 7)]\<rparr>\<rparr> id)
   = [(''trace'', PyInt 7), (''user_id'', PyStr ''u1'')]"
proof -
  have h: "fastmcp_context \<lparr>message = ''add_numbers'',
             fastmcp_context = Some \<lparr>state = [''trace'' \<mapsto> PyInt 7], writes = [(''trace'', PyInt 7)]\<rparr>\<rparr>
           = Some \<lparr>state = [''trace'' \<mapsto> PyInt 7], writes = [(''trace'', PyInt 7)]\<rparr>"
    by simp
  show ?thesis
    using one_write_when_context [OF h,
        of "Some \<lparr>claims = Some [''sub'' \<mapsto> PyStr ''u1'']\<rparr>" id]
    by (simp add: writes_of_def get_user_id_def dict_get_def)
qed

section \<open>Forwarding\<close>

text \<open>
  C4. Whatever the token and the context are, each hook produces exactly what the next stage
  produces on the forwarded context. The forwarded context carries the intercepted message,
  and a result (or an exception) of the next stage comes back as it is: the hook has no
  path that returns without calling the next stage or that changes what it returned.
\<close>

theorem always_forwards:
  "on_call_tool token context call_next =
     call_next (context\<lparr>fastmcp_context :=
       map_option (\<lambda>fc. set_state fc ''user_id'' (get_user_id token)) (fastmcp_context context)\<rparr>)
 \<and> on_read_resource token context call_next =
     call_next (context\<lparr>fastmcp_context :=
       map_option (\<lambda>fc. set_state fc ''user_id'' (get_user_id token)) (fastmcp_context context)\<rparr>)
 \<and> on_call_tool token context message = message context
 \<and> on_read_resource token context message = message context
 \<and> on_call_tool token context (\<lambda>c. Inr r :: exn + 'r) = Inr r
 \<and> on_read_resource token context (\<lambda>c. Inr r :: exn + 'r) = Inr r
 \<and> on_call_tool token context (\<lambda>c. Inl e :: exn + 'r) = Inl e
 \<and> on_read_resource token context (\<lambda>c. Inl e :: exn + 'r) = Inl e"
  by (cases "fastmcp_context context")
    (simp_all add: on_call_tool_def on_read_resource_def fastmcp_context_same)

text \<open>
  C10. The two hooks are the same function of the token, the context and the next stage:
  both resolve the identity with \<open>get_user_id\<close> and make the same conditional write.
\<close>

theorem hooks_identical:
  "on_call_tool token context call_next = on_read_resource token context call_next"
  by (simp add: on_call_tool_def on_read_resource_def)

section \<open>Discovery and health\<close>

text \<open>
  C5. For the realm URL \<open>R\<close>, the discovery document is an HTTP 200 response whose keys are,
  in order, the eleven below; the issuer is \<open>R\<close>, each endpoint is \<open>R\<close> followed by its
  fixed path, and the five capability lists are fixed.
\<close>

theorem discovery_document:
  "status_code (openid_configuration R request) = 200
 \<and> map fst (items (content (openid_configuration R request))) =
     [''issuer'', ''authorization_endpoint'', ''token_endpoint'', ''userinfo_endpoint'',
      ''jwks_uri'', ''registration_endpoint'', ''scopes_supported'',
      ''response_types_supported'', ''grant_types_supported'',
      ''token_endpoint_auth_methods_supported'', ''code_challenge_methods_supported'']
 \<and> map_of (items (content (openid_configuration R request))) ''issuer'' = Some (PyStr R)
 \<and> map_of (items (content (openid_configuration R request))) ''authorization_endpoint'' =
     Some (PyStr (R @ ''/protocol/openid-connect/auth''))
 \<and> map_of (items (content (openid_configuration R request))) ''token_endpoint'' =
     Some (PyStr (R @ ''/protocol/openid-connect/token''))
 \<and> map_of (items (content (openid_configuration R request))) ''userinfo_endpoint'' =
     Some (PyStr (R @ ''/protocol/openid-connect/userinfo''))
 \<and> map_of (items (content (openid_configuration R request))) ''jwks_uri'' =
     Some (PyStr (R @ ''/protocol/openid-connect/certs''))
 \<and> map_of (items (content (openid_configuration R request))) ''registration_endpoint'' =
     Some (PyStr (R @ ''/clients-registrations/openid-connect''))
 \<and> map_of (items (content (openid_configuration R request))) ''scopes_supported'' =
     Some (PyList [PyStr ''openid'', PyStr ''profile'', PyStr ''email'', PyStr ''mcp:access''])
 \<and> map_of (items (content (openid_configuration R request))) ''response_types_supported'' =
     Some (PyList [PyStr ''code''])
 \<and> map_of (items (content (openid_configuration R request))) ''grant_types_supported'' =
     Some (PyList [PyStr ''authorization_code'', PyStr ''refresh_token''])
 \<and> map_of (items (content (openid_configuration R request)))
       ''token_endpoint_auth_methods_supported'' =
     Some (PyList [PyStr ''client_secret_basic'', PyStr ''client_secret_post''])
 \<and> map_of (items (content (openid_configuration R request)))
       ''code_challenge_methods_supported'' =
     Some (PyList [PyStr ''S256''])"
  by (simp add: openid_configuration_def JSONResponse_def)

text \<open>
  C6. The discovery document depends on the realm URL only: two requests, whatever they
  contain, get the same response for the same realm URL, and so the same bytes under any
  serialisation \<open>render\<close> of the response.
\<close>

theorem discovery_deterministic:
  "openid_configuration R request1 = openid_configuration R request2
 \<and> render (openid_configuration R request1) = render (openid_configuration R request2)"
  by (simp add: openid_configuration_def)

text \<open>
  C7. For every request, the health handler answers HTTP 200 with the dictionary
  \<^verbatim>\<open>{"status": "healthy", "service": "mcp-server"}\<close>. The answer does not depend on the
  request (its headers, so any credentials, included), and the handler consults neither a
  token nor the identity provider.
\<close>

theorem health_check_response:
  "health_check request =
     \<lparr>status_code = 200,
      content = PyDict [(''status'', PyStr ''healthy''), (''service'', PyStr ''mcp-server'')]\<rparr>
 \<and> health_check request = health_check request'"
  by (simp add: health_check_def JSONResponse_def)

end
